theory Spec2Isabelle
  imports Main
begin

text \<open>
  The route-resolution core of the ADS-B viewer \<open>server.js\<close>: the callsign cache with
  its adaptive order of route sources, the three source adapters, the airport and country
  tables with their display names, and the enrichment of a batch of aircraft records.
  Each function of the source is a function here under its own name; what the source
  reads from the network is an argument, and what it mutates is a state that is passed in
  and returned.
\<close>

section \<open>Strings\<close>

text \<open>
  JavaScript strings are modelled as HOL strings holding ASCII text. \<open>toUpperCase\<close> maps
  the letters a--z to A--Z and leaves every other character alone; \<open>trim\<close> strips the
  ASCII white space and line terminators (tab, line feed, vertical tab, form feed,
  carriage return, space) from both ends. Characters beyond ASCII are outside the model.
\<close>

definition upperLetters :: string where
  "upperLetters = ''ABCDEFGHIJKLMNOPQRSTUVWXYZ''"

definition lowerLetters :: string where
  "lowerLetters = ''abcdefghijklmnopqrstuvwxyz''"

definition decimalDigits :: string where
  "decimalDigits = ''0123456789''"

definition isUpperAZ :: "char \<Rightarrow> bool" where
  "isUpperAZ c \<longleftrightarrow> c \<in> set upperLetters"

definition isDigit :: "char \<Rightarrow> bool" where
  "isDigit c \<longleftrightarrow> c \<in> set decimalDigits"

definition toUpperChar :: "char \<Rightarrow> char" where
  "toUpperChar c = (case map_of (zip lowerLetters upperLetters) c of Some u \<Rightarrow> u | None \<Rightarrow> c)"

definition toUpperCase :: "string \<Rightarrow> string" where
  "toUpperCase s = map toUpperChar s"

definition isWhiteSpace :: "char \<Rightarrow> bool" where
  "isWhiteSpace c \<longleftrightarrow>
     c \<in> set [CHR 0x09, CHR 0x0A, CHR 0x0B, CHR 0x0C, CHR 0x0D, CHR '' '']"

definition trim :: "string \<Rightarrow> string" where
  "trim s = rev (dropWhile isWhiteSpace (rev (dropWhile isWhiteSpace s)))"

section \<open>JSON payloads\<close>

text \<open>
  The body of an HTTP response as axios hands it over: a parsed JSON value, or a plain
  string. \<open>JUndefined\<close> is what reading a missing property gives. Numbers are the
  integers (a number with a fraction or beyond the safe integer range is outside the
  model). \<open>JObj\<close> lists the own properties of an object.
\<close>

datatype json =
    JUndefined
  | JNull
  | JBool bool
  | JNum int
  | JStr string
  | JArr "json list"
  | JObj "(string \<times> json) list"

text \<open>What a rejected request or a failing statement throws.\<close>

datatype exn = TypeError | HttpError nat | NetworkError

fun truthy :: "json \<Rightarrow> bool" where
  "truthy JUndefined = False"
| "truthy JNull = False"
| "truthy (JBool b) = b"
| "truthy (JNum n) = (n \<noteq> 0)"
| "truthy (JStr s) = (s \<noteq> [])"
| "truthy (JArr xs) = True"
| "truthy (JObj kvs) = True"

text \<open>The operator \<open>a || b\<close>.\<close>

definition jsOr :: "json \<Rightarrow> json \<Rightarrow> json" where
  "jsOr a b = (if truthy a then a else b)"

fun nullish :: "json \<Rightarrow> bool" where
  "nullish JUndefined = True"
| "nullish JNull = True"
| "nullish v = False"

text \<open>
  Reading the property \<open>k\<close> of a value that is neither null nor undefined (reading one
  of those throws, which every caller below writes out). The adapters read the names
  origin, destination, route, flights, data, departure, dep, arrival, arr, icao,
  icaoCode, icao\_code and airportIcao only: none of them is inherited from a prototype,
  so an object gives its own property and every primitive and array gives undefined.
\<close>

fun getProp :: "json \<Rightarrow> string \<Rightarrow> json" where
  "getProp (JObj kvs) k = (case map_of kvs k of Some v \<Rightarrow> v | None \<Rightarrow> JUndefined)"
| "getProp v k = JUndefined"

fun showNat :: "nat \<Rightarrow> string" where
  "showNat n =
     (if n < 10 then [decimalDigits ! n]
      else showNat (n div 10) @ [decimalDigits ! (n mod 10)])"

text \<open>
  \<open>String(v)\<close>. An array joins the strings of its elements with commas, null and
  undefined elements giving the empty string. An object gives \<open>[object Object]\<close>, unless it
  has an own property \<open>toString\<close>, which in a JSON payload is never callable: the
  conversion then throws a TypeError.
\<close>

fun jsString :: "json \<Rightarrow> exn + string" and jsJoin :: "json list \<Rightarrow> exn + string" where
  "jsString JUndefined = Inr ''undefined''"
| "jsString JNull = Inr ''null''"
| "jsString (JBool b) = Inr (if b then ''true'' else ''false'')"
| "jsString (JNum n) = Inr (if n < 0 then CHR ''-'' # showNat (nat (- n)) else showNat (nat n))"
| "jsString (JStr s) = Inr s"
| "jsString (JArr xs) = jsJoin xs"
| "jsString (JObj kvs) =
     (if map_of kvs ''toString'' = None then Inr ''[object Object]'' else Inl TypeError)"
| "jsJoin [] = Inr []"
| "jsJoin (x # xs) =
     (case (if nullish x then Inr [] else jsString x) of
        Inl e \<Rightarrow> Inl e
      | Inr s \<Rightarrow>
          (if xs = [] then Inr s
           else (case jsJoin xs of Inl e \<Rightarrow> Inl e | Inr t \<Rightarrow> Inr (s @ '','' @ t))))"

section \<open>Route source adapters\<close>

record route =
  originIcao :: string
  destinationIcao :: string

text \<open>
  The world outside the process, as one resolution sees it: the two optional API keys and,
  for each upstream service, what a GET for the given query yields (\<open>Inl\<close>: the request
  is rejected; \<open>Inr\<close>: the body of the response). Within one resolution no query is sent
  twice, so a function of the query is as general as the network.
\<close>

record env =
  AERODATABOX_API_KEY :: "string option"
  AVIATIONSTACK_API_KEY :: "string option"
  adsbdbGet :: "string \<Rightarrow> exn + json"
  aerodataboxGet :: "string \<Rightarrow> exn + json"
  aviationstackGet :: "string \<Rightarrow> string option \<Rightarrow> exn + json"

text \<open>\<open>!KEY\<close> for a key read as \<open>process.env.KEY || null\<close>.\<close>

definition keyAbsent :: "string option \<Rightarrow> bool" where
  "keyAbsent k \<longleftrightarrow> k = None \<or> k = Some []"

definition ICAO_TO_IATA :: "(string \<times> string) list" where
  "ICAO_TO_IATA =
     [(''ACA'', ''AC''), (''JZA'', ''QK''), (''ROU'', ''RV''), (''WJA'', ''WS''),
      (''WEN'', ''WR''), (''TSC'', ''TS''), (''POE'', ''PD''), (''QTR'', ''QR''),
      (''BAW'', ''BA''), (''AFR'', ''AF''), (''DLH'', ''LH''), (''KLM'', ''KL''),
      (''UAL'', ''UA''), (''AAL'', ''AA''), (''DAL'', ''DL''), (''JBU'', ''B6''),
      (''SWA'', ''WN'')]"

text \<open>
  The two values an adapter stores: \<open>String(v).toUpperCase()\<close> of both codes. A
  conversion that throws is caught by the adapter's \<open>try\<close>.
\<close>

definition mkRoute :: "json \<Rightarrow> json \<Rightarrow> exn + route" where
  "mkRoute origin destination =
     (case jsString origin of
        Inl e \<Rightarrow> Inl e
      | Inr ostr \<Rightarrow>
          (case jsString destination of
             Inl e \<Rightarrow> Inl e
           | Inr dstr \<Rightarrow>
               Inr \<lparr>originIcao = toUpperCase ostr, destinationIcao = toUpperCase dstr\<rparr>))"

definition fetchRouteFromAdsbdb :: "env \<Rightarrow> string \<Rightarrow> route option" where
  "fetchRouteFromAdsbdb e callsignKey =
     (case adsbdbGet e callsignKey of
        Inl err \<Rightarrow> None
      | Inr respData \<Rightarrow>
          (let dat = jsOr respData (JObj []);
               origin0 = getProp dat ''origin'';
               destination0 = getProp dat ''destination'';
               rt = getProp dat ''route'';
               viaRoute = ((\<not> truthy origin0 \<or> \<not> truthy destination0) \<and> truthy rt);
               origin = (if viaRoute then jsOr origin0 (getProp rt ''origin'') else origin0);
               destination =
                 (if viaRoute then jsOr destination0 (getProp rt ''destination'') else destination0)
           in if \<not> truthy origin \<or> \<not> truthy destination then None
              else (case mkRoute origin destination of Inl err \<Rightarrow> None | Inr r \<Rightarrow> Some r)))"

text \<open>
  The match of \<open>/^([A-Z]{2,3})(\d{1,4})$/\<close> on the trimmed, upper-cased callsign: the
  leading run of capital letters has two or three of them and the rest is one to four
  digits. The two groups do not overlap in their characters, so the greedy match is the
  only one.
\<close>

definition parseFlightNumberFromCallsign :: "string \<Rightarrow> (string \<times> string) option" where
  "parseFlightNumberFromCallsign callsignKey =
     (if callsignKey = [] then None
      else
        (let cs = toUpperCase (trim callsignKey);
             icaoCode = takeWhile isUpperAZ cs;
             flightNumber = dropWhile isUpperAZ cs
         in if 2 \<le> length icaoCode \<and> length icaoCode \<le> 3
               \<and> 1 \<le> length flightNumber \<and> length flightNumber \<le> 4
               \<and> list_all isDigit flightNumber
            then Some (icaoCode, flightNumber) else None))"

text \<open>\<open>Set.add\<close> followed by \<open>Array.from\<close>: insertion order, no duplicates.\<close>

definition setAdd :: "string list \<Rightarrow> string \<Rightarrow> string list" where
  "setAdd xs x = (if x \<in> set xs then xs else xs @ [x])"

definition buildFlightNumberCandidates :: "string \<Rightarrow> string list" where
  "buildFlightNumberCandidates callsignKey =
     (case parseFlightNumberFromCallsign callsignKey of
        None \<Rightarrow> []
      | Some (icaoCode, flightNumber) \<Rightarrow>
          (let candidates = setAdd [] (icaoCode @ flightNumber)
           in case map_of ICAO_TO_IATA icaoCode of
                None \<Rightarrow> candidates
              | Some iata \<Rightarrow>
                  (if iata = [] then candidates
                   else setAdd candidates (iata @ flightNumber))))"

text \<open>The first truthy value among the properties \<open>ks\<close> of \<open>v\<close>, else \<open>d\<close>.\<close>

fun firstTruthy :: "json \<Rightarrow> string list \<Rightarrow> json \<Rightarrow> json" where
  "firstTruthy v [] d = d"
| "firstTruthy v (k # ks) d = jsOr (getProp v k) (firstTruthy v ks d)"

definition aeroDepAliases :: "string list" where
  "aeroDepAliases = [''departure'', ''dep'']"

definition aeroArrAliases :: "string list" where
  "aeroArrAliases = [''arrival'', ''arr'']"

definition aeroIcaoAliases :: "string list" where
  "aeroIcaoAliases = [''icao'', ''icaoCode'', ''icao_code'', ''airportIcao'']"

text \<open>
  The three lookups on a response of the flight-number service: the list of flights
  (the body itself when it is an array, else its \<open>flights\<close> or \<open>data\<close>), and the
  origin and destination codes of a flight \<open>f\<close>, each the first truthy alias inside the
  first truthy container.
\<close>

definition aeroFlights :: "json \<Rightarrow> json" where
  "aeroFlights body =
     (case body of JArr xs \<Rightarrow> body | _ \<Rightarrow> firstTruthy body [''flights'', ''data''] (JArr []))"

definition aeroOrigin :: "json \<Rightarrow> json" where
  "aeroOrigin f = firstTruthy (firstTruthy f aeroDepAliases (JObj [])) aeroIcaoAliases JNull"

definition aeroDestination :: "json \<Rightarrow> json" where
  "aeroDestination f = firstTruthy (firstTruthy f aeroArrAliases (JObj [])) aeroIcaoAliases JNull"

text \<open>
  The body of the \<open>try\<close> for one candidate of the flight-number adapter: \<open>Inl\<close> when
  it throws (a rejected request, a null body or flight, a code that has no string),
  \<open>Inr None\<close> when it reaches \<open>continue\<close>, \<open>Inr (Some r)\<close> when it returns \<open>r\<close>.
\<close>

definition aeroDataBoxTry :: "env \<Rightarrow> string \<Rightarrow> exn + route option" where
  "aeroDataBoxTry e flightNumber =
     (case aerodataboxGet e flightNumber of
        Inl err \<Rightarrow> Inl err
      | Inr body \<Rightarrow>
          (if nullish body then Inl TypeError
           else
             (case aeroFlights body of
                JArr (f # fs) \<Rightarrow>
                  (if nullish f then Inl TypeError
                   else if \<not> truthy (aeroOrigin f) \<or> \<not> truthy (aeroDestination f)
                   then Inr None
                   else (case mkRoute (aeroOrigin f) (aeroDestination f) of
                           Inl err \<Rightarrow> Inl err
                         | Inr r \<Rightarrow> Inr (Some r)))
              | _ \<Rightarrow> Inr None)))"

text \<open>
  The loop over the candidates; a candidate whose \<open>try\<close> throws is logged and the loop
  goes on. Beside the result, the candidates that were requested, in order.
\<close>

fun aeroDataBoxLoop :: "env \<Rightarrow> string list \<Rightarrow> route option \<times> string list" where
  "aeroDataBoxLoop e [] = (None, [])"
| "aeroDataBoxLoop e (flightNumber # rest) =
     (case aeroDataBoxTry e flightNumber of
        Inr (Some r) \<Rightarrow> (Some r, [flightNumber])
      | _ \<Rightarrow> (case aeroDataBoxLoop e rest of (res, asked) \<Rightarrow> (res, flightNumber # asked)))"

definition fetchRouteFromAeroDataBox :: "env \<Rightarrow> string \<Rightarrow> route option \<times> string list" where
  "fetchRouteFromAeroDataBox e callsignKey =
     (if keyAbsent (AERODATABOX_API_KEY e) then (None, [])
      else
        (let candidates = buildFlightNumberCandidates callsignKey
         in if candidates = [] then (None, []) else aeroDataBoxLoop e candidates))"

definition fetchRouteFromAviationStack :: "env \<Rightarrow> string \<Rightarrow> route option" where
  "fetchRouteFromAviationStack e callsignKey =
     (if keyAbsent (AVIATIONSTACK_API_KEY e) then None
      else
        (let flightIata =
               (case parseFlightNumberFromCallsign callsignKey of
                  None \<Rightarrow> None
                | Some (icaoCode, flightNumber) \<Rightarrow>
                    (case map_of ICAO_TO_IATA icaoCode of
                       None \<Rightarrow> None
                     | Some iata \<Rightarrow> (if iata = [] then None else Some (iata @ flightNumber))))
         in case aviationstackGet e callsignKey flightIata of
              Inl err \<Rightarrow> None
            | Inr respData \<Rightarrow>
                (case getProp (jsOr respData (JObj [])) ''data'' of
                   JArr (f0 # fs) \<Rightarrow>
                     (let f = jsOr f0 (JObj []);
                          dep = jsOr (getProp f ''departure'') (JObj []);
                          arr = jsOr (getProp f ''arrival'') (JObj []);
                          origin = firstTruthy dep [''icao'', ''icao_code''] JNull;
                          destination = firstTruthy arr [''icao'', ''icao_code''] JNull
                      in if \<not> truthy origin \<or> \<not> truthy destination then None
                         else (case mkRoute origin destination of
                                 Inl err \<Rightarrow> None
                               | Inr r \<Rightarrow> Some r))
                 | _ \<Rightarrow> None)))"

section \<open>Adaptive route resolver\<close>

datatype source = adsbdb | aerodatabox | aviationstack

text \<open>
  The two tables of the resolver. In \<open>routeCache\<close> a key bound to \<open>None\<close> is a cached
  absent route; an unbound key has not been looked up. The success counts are natural
  numbers (the doubles of the source count exactly up to \<open>2 ^ 53\<close>).
\<close>

record resolver =
  routeCache :: "string \<rightharpoonup> route option"
  routeSourceStats :: "string \<rightharpoonup> (source \<Rightarrow> nat)"

definition emptyResolver :: resolver where
  "emptyResolver = \<lparr>routeCache = Map.empty, routeSourceStats = Map.empty\<rparr>"

definition getAirlineKeyFromCallsign :: "string \<Rightarrow> string" where
  "getAirlineKeyFromCallsign callsignKey =
     (if callsignKey = [] then ''DEFAULT''
      else
        (let cs = toUpperCase (trim callsignKey);
             m = takeWhile isUpperAZ cs
         in if m = [] then ''DEFAULT'' else m))"

definition recordRouteSourceSuccess :: "resolver \<Rightarrow> string \<Rightarrow> source \<Rightarrow> resolver" where
  "recordRouteSourceSuccess st airlineKey sourceName =
     (let stats = (case routeSourceStats st airlineKey of None \<Rightarrow> (\<lambda>s. 0) | Some c \<Rightarrow> c)
      in st\<lparr>routeSourceStats :=
              (routeSourceStats st)(airlineKey \<mapsto> stats(sourceName := stats sourceName + 1))\<rparr>)"

text \<open>
  \<open>Array.prototype.sort\<close> with a comparator is a stable sort: each element is
  inserted into the sorted rest of the list, before the first element that the comparator
  does not put before it, so elements that compare equal keep their order.
\<close>

fun insertBy :: "('a \<Rightarrow> 'a \<Rightarrow> int) \<Rightarrow> 'a \<Rightarrow> 'a list \<Rightarrow> 'a list" where
  "insertBy cmp x [] = [x]"
| "insertBy cmp x (y # ys) = (if cmp x y \<le> 0 then x # y # ys else y # insertBy cmp x ys)"

fun sortBy :: "('a \<Rightarrow> 'a \<Rightarrow> int) \<Rightarrow> 'a list \<Rightarrow> 'a list" where
  "sortBy cmp [] = []"
| "sortBy cmp (x # xs) = insertBy cmp x (sortBy cmp xs)"

definition defaultOrder :: "source list" where
  "defaultOrder = [adsbdb, aerodatabox, aviationstack]"

definition getRouteSourceOrderForAirline :: "resolver \<Rightarrow> string \<Rightarrow> source list" where
  "getRouteSourceOrderForAirline st airlineKey =
     (case routeSourceStats st airlineKey of
        None \<Rightarrow> defaultOrder
      | Some stats \<Rightarrow> sortBy (\<lambda>a b. int (stats b) - int (stats a)) defaultOrder)"

definition fetchRouteFrom :: "env \<Rightarrow> source \<Rightarrow> string \<Rightarrow> route option" where
  "fetchRouteFrom e src key =
     (case src of
        adsbdb \<Rightarrow> fetchRouteFromAdsbdb e key
      | aerodatabox \<Rightarrow> fst (fetchRouteFromAeroDataBox e key)
      | aviationstack \<Rightarrow> fetchRouteFromAviationStack e key)"

text \<open>\<open>result && result.originIcao && result.destinationIcao\<close>.\<close>

definition usable :: "route option \<Rightarrow> bool" where
  "usable result \<longleftrightarrow>
     (case result of None \<Rightarrow> False | Some r \<Rightarrow> originIcao r \<noteq> [] \<and> destinationIcao r \<noteq> [])"

text \<open>
  The loop over the source order. Beside the result and the new state, the sources whose
  adapter was invoked, in order.
\<close>

fun trySources ::
  "env \<Rightarrow> resolver \<Rightarrow> string \<Rightarrow> string \<Rightarrow> source list \<Rightarrow> route option \<times> resolver \<times> source list"
where
  "trySources e st key airlineKey [] =
     (None, st\<lparr>routeCache := (routeCache st)(key \<mapsto> None)\<rparr>, [])"
| "trySources e st key airlineKey (src # rest) =
     (let result = fetchRouteFrom e src key
      in if usable result
         then (result,
               recordRouteSourceSuccess
                 (st\<lparr>routeCache := (routeCache st)(key \<mapsto> result)\<rparr>) airlineKey src,
               [src])
         else (case trySources e st key airlineKey rest of
                 (res, st', invoked) \<Rightarrow> (res, st', src # invoked)))"

text \<open>
  One call of the resolver, run to completion before the next one starts.
\<close>

definition fetchRouteForCallsign ::
  "env \<Rightarrow> resolver \<Rightarrow> string \<Rightarrow> route option \<times> resolver \<times> source list"
where
  "fetchRouteForCallsign e st callsign =
     (if callsign = [] then (None, st, [])
      else
        (let key = toUpperCase (trim callsign)
         in if key = [] then (None, st, [])
            else
              (case routeCache st key of
                 Some cached \<Rightarrow> (cached, st, [])
               | None \<Rightarrow>
                   (let airlineKey = getAirlineKeyFromCallsign key;
                        sourceOrder = getRouteSourceOrderForAirline st airlineKey
                    in trySources e st key airlineKey sourceOrder))))"

text \<open>A sequence of calls, each with the world as it is at that moment.\<close>

fun resolveAll :: "resolver \<Rightarrow> (env \<times> string) list \<Rightarrow> route option list \<times> resolver" where
  "resolveAll st [] = ([], st)"
| "resolveAll st ((e, callsign) # calls) =
     (case fetchRouteForCallsign e st callsign of
        (res, st', invoked) \<Rightarrow>
          (case resolveAll st' calls of (ress, st'') \<Rightarrow> (res # ress, st'')))"

text \<open>Observations of the state that the properties below are stated with.\<close>

definition successCount :: "resolver \<Rightarrow> string \<Rightarrow> source \<Rightarrow> nat" where
  "successCount st airlineKey src =
     (case routeSourceStats st airlineKey of None \<Rightarrow> 0 | Some stats \<Rightarrow> stats src)"

definition defaultRank :: "source \<Rightarrow> nat" where
  "defaultRank src = length (takeWhile (\<lambda>s. s \<noteq> src) defaultOrder)"

text \<open>
  \<open>triedBefore st k a b\<close>: source \<open>a\<close> has more recorded successes for the airline key
  \<open>k\<close> than \<open>b\<close>, or as many and an earlier place in the default order.
\<close>

definition triedBefore :: "resolver \<Rightarrow> string \<Rightarrow> source \<Rightarrow> source \<Rightarrow> bool" where
  "triedBefore st airlineKey a b \<longleftrightarrow>
     successCount st airlineKey b < successCount st airlineKey a
     \<or> (successCount st airlineKey a = successCount st airlineKey b
        \<and> defaultRank a < defaultRank b)"

definition routeOk :: "route \<Rightarrow> bool" where
  "routeOk r \<longleftrightarrow>
     originIcao r \<noteq> [] \<and> destinationIcao r \<noteq> []
     \<and> toUpperCase (originIcao r) = originIcao r
     \<and> toUpperCase (destinationIcao r) = destinationIcao r"

section \<open>CSV utilities\<close>

text \<open>
  The loop of \<open>parseCsvLine\<close> over the characters still to be read, with the field being
  built, the quote flag and the fields finished so far. A quote followed by a quote inside
  a quoted field is one literal quote, and the loop skips both.
\<close>

fun parseCsvLoop :: "string \<Rightarrow> string \<Rightarrow> bool \<Rightarrow> string list \<Rightarrow> string list" where
  "parseCsvLoop [] current inQuotes result = result @ [current]"
| "parseCsvLoop (c # rest) current inQuotes result =
     (if c = CHR 0x22 then
        (case rest of
           [] \<Rightarrow> parseCsvLoop rest current (\<not> inQuotes) result
         | d # rest' \<Rightarrow>
             (if inQuotes \<and> d = CHR 0x22
              then parseCsvLoop rest' (current @ [CHR 0x22]) inQuotes result
              else parseCsvLoop rest current (\<not> inQuotes) result))
      else if c = CHR 0x2C \<and> \<not> inQuotes then parseCsvLoop rest [] inQuotes (result @ [current])
      else parseCsvLoop rest (current @ [c]) inQuotes result)"

definition parseCsvLine :: "string \<Rightarrow> string list" where
  "parseCsvLine line = parseCsvLoop line [] False []"

text \<open>\<open>text.split(/\r?\n/)\<close>: the lines of a text, with the line being built.\<close>

fun splitLinesFrom :: "string \<Rightarrow> string \<Rightarrow> string list" where
  "splitLinesFrom [] current = [current]"
| "splitLinesFrom (c # rest) current =
     (if c = CHR 0x0A then current # splitLinesFrom rest []
      else
        (case rest of
           [] \<Rightarrow> splitLinesFrom rest (current @ [c])
         | d # rest' \<Rightarrow>
             (if c = CHR 0x0D \<and> d = CHR 0x0A then current # splitLinesFrom rest' []
              else splitLinesFrom rest (current @ [c]))))"

definition splitLines :: "string \<Rightarrow> string list" where
  "splitLines text = splitLinesFrom text []"

text \<open>\<open>cols.indexOf(x)\<close>, with \<open>None\<close> for \<open>-1\<close>, and \<open>cols[i]\<close> at such an index.\<close>

fun indexOf :: "string list \<Rightarrow> string \<Rightarrow> nat option" where
  "indexOf [] x = None"
| "indexOf (y # ys) x =
     (if y = x then Some 0 else (case indexOf ys x of None \<Rightarrow> None | Some i \<Rightarrow> Some (Suc i)))"

definition colAt :: "string list \<Rightarrow> nat option \<Rightarrow> string option" where
  "colAt cols idx =
     (case idx of None \<Rightarrow> None | Some i \<Rightarrow> (if i < length cols then Some (cols ! i) else None))"

section \<open>Airport and country tables\<close>

record airportInfo =
  city :: string
  countryName :: string

text \<open>
  The two module variables. \<open>None\<close> is the initial \<open>null\<close>; a loaded table is an object,
  which is truthy even when it is empty.
\<close>

record refStore =
  airportsByIcao :: "(string \<rightharpoonup> airportInfo) option"
  countryNameToIso2 :: "(string \<rightharpoonup> string) option"

definition emptyStore :: refStore where
  "emptyStore = \<lparr>airportsByIcao = None, countryNameToIso2 = None\<rparr>"

text \<open>
  What a GET of each dataset yields at the moment of a call: a rejection, or the data of
  the response.
\<close>

record refNet =
  airportsGet :: "exn + json"
  countriesGet :: "exn + json"

datatype dataset = Airports | Countries

text \<open>One step of the loop over the lines of the airport file.\<close>

definition addAirportLine :: "(string \<rightharpoonup> airportInfo) \<Rightarrow> string \<Rightarrow> (string \<rightharpoonup> airportInfo)" where
  "addAirportLine m line =
     (if trim line = [] then m
      else
        (let cols = parseCsvLine line
         in if length cols < 6 then m
            else
              (let icao = cols ! 5
               in if icao = [] then m
                  else m(toUpperCase icao \<mapsto> \<lparr>city = cols ! 2, countryName = cols ! 3\<rparr>))))"

definition airportsFromText :: "string \<Rightarrow> (string \<rightharpoonup> airportInfo)" where
  "airportsFromText text = foldl addAirportLine Map.empty (splitLines text)"

text \<open>
  The body of the \<open>try\<close> with its \<open>catch\<close>: a rejected request, or data that is
  not a string (\<open>text.split\<close> then throws), gives the empty table.
\<close>

definition airportsFromResponse :: "exn + json \<Rightarrow> (string \<rightharpoonup> airportInfo)" where
  "airportsFromResponse resp =
     (case resp of Inr (JStr text) \<Rightarrow> airportsFromText text | _ \<Rightarrow> Map.empty)"

text \<open>
  \<open>map[name] = code\<close> on a plain object: the name \<open>__proto__\<close> is the inherited
  accessor, which ignores a string, so no entry is made.
\<close>

definition setEntry :: "(string \<rightharpoonup> string) \<Rightarrow> string \<Rightarrow> string \<Rightarrow> (string \<rightharpoonup> string)" where
  "setEntry m name code = (if name = ''__proto__'' then m else m(name \<mapsto> code))"

definition addCountryLine ::
  "nat option \<Rightarrow> nat option \<Rightarrow> (string \<rightharpoonup> string) \<Rightarrow> string \<Rightarrow> (string \<rightharpoonup> string)"
where
  "addCountryLine codeIdx nameIdx m rawLine =
     (let line = trim rawLine
      in if line = [] then m
         else
           (let cols = parseCsvLine line
            in case (colAt cols codeIdx, colAt cols nameIdx) of
                 (Some code, Some name) \<Rightarrow>
                   (if code = [] \<or> name = [] then m else setEntry m name code)
               | _ \<Rightarrow> m))"

definition countriesFromText :: "string \<Rightarrow> (string \<rightharpoonup> string)" where
  "countriesFromText text =
     (case splitLines text of
        [] \<Rightarrow> Map.empty
      | header # rows \<Rightarrow>
          (let headerCols = parseCsvLine header;
               codeIdx = indexOf headerCols ''code'';
               nameIdx = indexOf headerCols ''name''
           in foldl (addCountryLine codeIdx nameIdx) Map.empty rows))"

definition countriesFromResponse :: "exn + json \<Rightarrow> (string \<rightharpoonup> string)" where
  "countriesFromResponse resp =
     (case resp of Inr (JStr text) \<Rightarrow> countriesFromText text | _ \<Rightarrow> Map.empty)"

text \<open>
  One call of each loader, run to completion: the table, the new state and the datasets
  fetched by the call.
\<close>

definition loadCountryDb :: "refNet \<Rightarrow> refStore \<Rightarrow> (string \<rightharpoonup> string) \<times> refStore \<times> dataset list" where
  "loadCountryDb net st =
     (case countryNameToIso2 st of
        Some m \<Rightarrow> (m, st, [])
      | None \<Rightarrow>
          (let m = countriesFromResponse (countriesGet net)
           in (m, st\<lparr>countryNameToIso2 := Some m\<rparr>, [Countries])))"

definition loadAirportDb ::
  "refNet \<Rightarrow> refStore \<Rightarrow> (string \<rightharpoonup> airportInfo) \<times> refStore \<times> dataset list"
where
  "loadAirportDb net st =
     (case airportsByIcao st of
        Some m \<Rightarrow> (m, st, [])
      | None \<Rightarrow>
          (let m = airportsFromResponse (airportsGet net)
           in (m, st\<lparr>airportsByIcao := Some m\<rparr>, [Airports])))"

text \<open>
  The names every plain object inherits from \<open>Object.prototype\<close>, and the string form
  of what is inherited under each: a native function, or for \<open>__proto__\<close> the prototype
  object itself.
\<close>

definition objectPrototypeNames :: "string list" where
  "objectPrototypeNames =
     [''constructor'', ''__defineGetter__'', ''__defineSetter__'', ''hasOwnProperty'',
      ''__lookupGetter__'', ''__lookupSetter__'', ''isPrototypeOf'', ''propertyIsEnumerable'',
      ''toString'', ''valueOf'', ''__proto__'', ''toLocaleString'']"

definition inheritedText :: "string \<Rightarrow> string" where
  "inheritedText name =
     (if name = ''__proto__'' then ''[object Object]''
      else if name = ''constructor'' then ''function Object() { [native code] }''
      else ''function '' @ name @ ''() { [native code] }'')"

text \<open>
  \<open>countries[countryName] || null\<close>, as the text a template literal makes of it: the
  own entry when there is one (the loader stores no empty code), else what the name
  inherits, else null. The lookup does not ask for an own property.
\<close>

definition lookupIso2 :: "(string \<rightharpoonup> string) \<Rightarrow> string \<Rightarrow> string option" where
  "lookupIso2 countries name =
     (case countries name of
        Some code \<Rightarrow> (if code = [] then None else Some code)
      | None \<Rightarrow>
          (if name \<in> set objectPrototypeNames then Some (inheritedText name) else None))"

text \<open>
  The part of \<open>getAirportDisplay\<close> after both tables are there. The keys of the airport
  table and the code looked up are upper-cased, so no inherited name is ever hit there.
\<close>

definition airportDisplayFrom ::
  "(string \<rightharpoonup> airportInfo) \<Rightarrow> (string \<rightharpoonup> string) \<Rightarrow> string \<Rightarrow> string option"
where
  "airportDisplayFrom airports countries icao =
     (case airports icao of
        None \<Rightarrow> None
      | Some info \<Rightarrow>
          (let iso2 = lookupIso2 countries (countryName info)
           in if city info = [] \<and> countryName info = [] then None
              else if city info \<noteq> [] \<and> iso2 \<noteq> None then Some (city info @ '', '' @ the iso2)
              else if city info \<noteq> [] \<and> countryName info \<noteq> []
                then Some (city info @ '', '' @ countryName info)
              else if city info \<noteq> [] then Some (city info)
              else if countryName info \<noteq> [] then Some (countryName info)
              else None))"

definition getAirportDisplay ::
  "refNet \<Rightarrow> refStore \<Rightarrow> string \<Rightarrow> string option \<times> refStore \<times> dataset list"
where
  "getAirportDisplay net st icaoCode =
     (if icaoCode = [] then (None, st, [])
      else
        (let icao = toUpperCase icaoCode
         in case loadAirportDb net st of
              (airports, st1, fetched1) \<Rightarrow>
                (case loadCountryDb net st1 of
                   (countries, st2, fetched2) \<Rightarrow>
                     (airportDisplayFrom airports countries icao, st2, fetched1 @ fetched2))))"



section \<open>Concurrent first calls of a loader\<close>

text \<open>
  A loader runs in two uninterrupted stretches. Entering, it reads the module variable:
  when a table is there it returns it; otherwise it issues the request and waits. When
  the request settles, it builds the table (the empty one after a failure), assigns it to
  the variable and returns it. Between the two stretches other callers may run. The state
  holds the variable, the number of requests issued so far and where each caller stands.
\<close>

datatype 'm caller = Idle | Awaiting | Returned 'm

record 'm loader =
  slot :: "'m option"
  requests :: nat
  callers :: "nat \<Rightarrow> 'm caller"

datatype event = Enter nat | Settle nat "exn + json"

definition initLoader :: "'m loader" where
  "initLoader = \<lparr>slot = None, requests = 0, callers = (\<lambda>i. Idle)\<rparr>"

definition loaderStep :: "(exn + json \<Rightarrow> 'm) \<Rightarrow> 'm loader \<Rightarrow> event \<Rightarrow> 'm loader" where
  "loaderStep build ls ev =
     (case ev of
        Enter i \<Rightarrow>
          (case callers ls i of
             Idle \<Rightarrow>
               (case slot ls of
                  Some m \<Rightarrow> ls\<lparr>callers := (callers ls)(i := Returned m)\<rparr>
                | None \<Rightarrow>
                    ls\<lparr>requests := requests ls + 1, callers := (callers ls)(i := Awaiting)\<rparr>)
           | _ \<Rightarrow> ls)
      | Settle i resp \<Rightarrow>
          (case callers ls i of
             Awaiting \<Rightarrow>
               (let m = build resp
                in ls\<lparr>slot := Some m, callers := (callers ls)(i := Returned m)\<rparr>)
           | _ \<Rightarrow> ls))"

definition runLoader :: "(exn + json \<Rightarrow> 'm) \<Rightarrow> 'm loader \<Rightarrow> event list \<Rightarrow> 'm loader" where
  "runLoader build ls evs = foldl (loaderStep build) ls evs"

text \<open>
  The schedule of calls that do not overlap: each caller enters and its request, if it
  issued one, settles before the next caller enters.
\<close>

fun oneAfterAnother :: "(nat \<times> (exn + json)) list \<Rightarrow> event list" where
  "oneAfterAnother [] = []"
| "oneAfterAnother ((i, resp) # rest) = Enter i # Settle i resp # oneAfterAnother rest"

section \<open>Aircraft enricher\<close>

text \<open>
  An aircraft record: the callsign and the four route fields, which start as null; the
  other fields of the record are carried along untouched.
\<close>

record aircraft =
  callsign :: string
  acOriginIcao :: "string option"
  acDestinationIcao :: "string option"
  originDisplay :: "string option"
  destinationDisplay :: "string option"

text \<open>
  The task of one record. Its two callees are parameters: what the route resolution of a
  callsign and the display-name lookup of a code yield when this task calls them, \<open>Inl\<close>
  when the call throws. A throw anywhere inside the \<open>try\<close> ends in the \<open>catch\<close>,
  which logs, and the record is returned as it then is.
\<close>

definition enrichTask ::
  "(string \<Rightarrow> exn + route option) \<Rightarrow> (string \<Rightarrow> exn + string option)
     \<Rightarrow> 'a aircraft_scheme \<Rightarrow> 'a aircraft_scheme"
where
  "enrichTask fetchRoute airportDisplay ac =
     (if callsign ac = [] then ac
      else
        (case fetchRoute (callsign ac) of
           Inl err \<Rightarrow> ac
         | Inr None \<Rightarrow> ac
         | Inr (Some rt) \<Rightarrow>
             (let ac1 = ac\<lparr>acOriginIcao := Some (originIcao rt),
                             acDestinationIcao := Some (destinationIcao rt)\<rparr>
              in case airportDisplay (originIcao rt) of
                   Inl err \<Rightarrow> ac1
                 | Inr originDisp \<Rightarrow>
                     (case airportDisplay (destinationIcao rt) of
                        Inl err \<Rightarrow> ac1
                      | Inr destDisp \<Rightarrow>
                          ac1\<lparr>originDisplay := originDisp, destinationDisplay := destDisp\<rparr>))))"

text \<open>
  \<open>Promise.all\<close> over the tasks keeps the order of the list. The tasks interleave, so
  the callees of the task at position \<open>i\<close> are the ones given for \<open>i\<close>.
\<close>

definition enrichAircraftWithRoutes ::
  "(nat \<Rightarrow> string \<Rightarrow> exn + route option) \<Rightarrow> (nat \<Rightarrow> string \<Rightarrow> exn + string option)
     \<Rightarrow> 'a aircraft_scheme list \<Rightarrow> 'a aircraft_scheme list"
where
  "enrichAircraftWithRoutes fetchRoute airportDisplay aircraftList =
     map (\<lambda>(i, ac). enrichTask (fetchRoute i) (airportDisplay i) ac) (enumerate 0 aircraftList)"

section \<open>Predicates of the statements\<close>



text \<open>Every route held in the cache is well formed.\<close>

definition cacheOk :: "resolver \<Rightarrow> bool" where
  "cacheOk st \<longleftrightarrow> (\<forall>k r. routeCache st k = Some (Some r) \<longrightarrow> routeOk r)"

section \<open>Example worlds\<close>

text \<open>
  Concrete inputs for the examples further down: a world in which only the free
  callsign service answers (in lower case), one in which only the flight-number service
  answers, and one in which every request fails.
\<close>

definition worldPrimary :: env where
  "worldPrimary =
     \<lparr>AERODATABOX_API_KEY = None, AVIATIONSTACK_API_KEY = None,
      adsbdbGet = (\<lambda>q. Inr (JObj [(''origin'', JStr ''cyyz''), (''destination'', JStr ''klax'')])),
      aerodataboxGet = (\<lambda>q. Inl NetworkError),
      aviationstackGet = (\<lambda>q i. Inl NetworkError)\<rparr>"

definition worldDown :: env where
  "worldDown =
     \<lparr>AERODATABOX_API_KEY = None, AVIATIONSTACK_API_KEY = None,
      adsbdbGet = (\<lambda>q. Inl NetworkError),
      aerodataboxGet = (\<lambda>q. Inl NetworkError),
      aviationstackGet = (\<lambda>q i. Inl NetworkError)\<rparr>"

definition routeYYZLAX :: route where
  "routeYYZLAX = \<lparr>originIcao = ''CYYZ'', destinationIcao = ''KLAX''\<rparr>"

definition resolverACA123 :: resolver where
  "resolverACA123 =
     \<lparr>routeCache = [''ACA123'' \<mapsto> Some routeYYZLAX],
      routeSourceStats = [''ACA'' \<mapsto> (\<lambda>s. 0)(adsbdb := 1)]\<rparr>"


definition flightsPayload :: json where
  "flightsPayload =
     JArr [JObj [(''departure'', JObj [(''airportIcao'', JStr ''cyyz'')]),
                 (''arr'', JObj [(''icao_code'', JStr ''cyvr'')])]]"

definition worldFlightNumber :: env where
  "worldFlightNumber =
     \<lparr>AERODATABOX_API_KEY = Some ''k'', AVIATIONSTACK_API_KEY = None,
      adsbdbGet = (\<lambda>q. Inl NetworkError),
      aerodataboxGet =
        (\<lambda>q. if list_all isDigit (drop 2 q) then Inr flightsPayload
             else Inr (JObj [(''flights'', JArr [])])),
      aviationstackGet = (\<lambda>q i. Inl NetworkError)\<rparr>"

definition routeYYZYVR :: route where
  "routeYYZYVR = \<lparr>originIcao = ''CYYZ'', destinationIcao = ''CYVR''\<rparr>"

definition resolverFlightNumber :: resolver where
  "resolverFlightNumber =
     \<lparr>routeCache = [''ACA2'' \<mapsto> Some routeYYZYVR],
      routeSourceStats = [''ACA'' \<mapsto> (\<lambda>s. 0)(aerodatabox := 1)]\<rparr>"

definition resolverACA1 :: resolver where
  "resolverACA1 =
     \<lparr>routeCache = [''ACA1'' \<mapsto> Some routeYYZLAX],
      routeSourceStats = [''ACA'' \<mapsto> (\<lambda>s. 0)(adsbdb := 1)]\<rparr>"

definition resolverTie :: resolver where
  "resolverTie =
     \<lparr>routeCache = [''ACA1'' \<mapsto> Some routeYYZLAX, ''ACA2'' \<mapsto> Some routeYYZYVR],
      routeSourceStats = [''ACA'' \<mapsto> (\<lambda>s. 0)(adsbdb := 1, aerodatabox := 1)]\<rparr>"

definition airportsText :: string where
  "airportsText =
     ''1,Charles de Gaulle,Paris,France,CDG,LFPG'' @ [CHR 0x0A]
     @ ''2,Test Field,Paris,constructor,TST,lfxx''"

definition countriesText :: string where
  "countriesText = ''id,code,name,continent'' @ [CHR 0x0D, CHR 0x0A] @ ''302687,FR,France,EU''"

definition airportsTable :: "string \<rightharpoonup> airportInfo" where
  "airportsTable =
     [''LFPG'' \<mapsto> \<lparr>city = ''Paris'', countryName = ''France''\<rparr>,
      ''LFXX'' \<mapsto> \<lparr>city = ''Paris'', countryName = ''constructor''\<rparr>]"

definition countriesTable :: "string \<rightharpoonup> string" where
  "countriesTable = [''France'' \<mapsto> ''FR'']"

definition netOk :: refNet where
  "netOk = \<lparr>airportsGet = Inr (JStr airportsText), countriesGet = Inr (JStr countriesText)\<rparr>"



definition storeLoaded :: refStore where
  "storeLoaded = \<lparr>airportsByIcao = Some airportsTable, countryNameToIso2 = Some countriesTable\<rparr>"






definition aircraftACA123 :: aircraft where
  "aircraftACA123 =
     \<lparr>callsign = ''ACA123'', acOriginIcao = None, acDestinationIcao = None,
      originDisplay = None, destinationDisplay = None\<rparr>"

definition aircraftNoCallsign :: aircraft where
  "aircraftNoCallsign =
     \<lparr>callsign = [], acOriginIcao = None, acDestinationIcao = None,
      originDisplay = None, destinationDisplay = None\<rparr>"

text \<open>
  Callees for a batch: the resolution of the task at position 0 throws, every other one
  finds a route; the display-name lookups of the task at position 2 throw.
\<close>

definition batchFetch :: "nat \<Rightarrow> string \<Rightarrow> exn + route option" where
  "batchFetch i cs = (if i = 0 then Inl NetworkError else Inr (Some routeYYZLAX))"

definition batchDisplay :: "nat \<Rightarrow> string \<Rightarrow> exn + string option" where
  "batchDisplay i code =
     (if i = 2 then Inl TypeError
      else if code = ''CYYZ'' then Inr (Some ''Toronto, CA'')
      else Inr (Some ''Los Angeles, US''))"

section \<open>Properties of strings\<close>

lemmas string_defs = toUpperCase_def toUpperChar_def lowerLetters_def upperLetters_def
  trim_def isWhiteSpace_def isUpperAZ_def isDigit_def decimalDigits_def

lemma toUpperChar_idem: "toUpperChar (toUpperChar c) = toUpperChar c"
  by (simp add: toUpperChar_def lowerLetters_def upperLetters_def)

lemma toUpperCase_idem: "toUpperCase (toUpperCase s) = toUpperCase s"
  by (simp add: toUpperCase_def toUpperChar_idem)



lemma normalize_ACA123: "toUpperCase (trim ''ACA123'') = ''ACA123''"
  by (simp add: string_defs)


section \<open>The route cache\<close>

lemma recordRouteSourceSuccess_cache:
  "routeCache (recordRouteSourceSuccess st airlineKey src) = routeCache st"
  by (simp add: recordRouteSourceSuccess_def Let_def)

lemma trySources_cache:
  "trySources e st key airlineKey order = (res, st', invoked) \<Longrightarrow>
   routeCache st' = (routeCache st)(key \<mapsto> res)"
  by (induction order arbitrary: invoked)
     (auto simp: Let_def recordRouteSourceSuccess_cache split: if_splits prod.splits)





lemma adsbdb_worldPrimary: "fetchRouteFromAdsbdb worldPrimary ''ACA123'' = Some routeYYZLAX"
  by (simp add: fetchRouteFromAdsbdb_def worldPrimary_def jsOr_def Let_def mkRoute_def
      routeYYZLAX_def string_defs)

lemma airlineKey_ACA123: "getAirlineKeyFromCallsign ''ACA123'' = ''ACA''"
  by (simp add: getAirlineKeyFromCallsign_def Let_def string_defs)

lemma first_call_ACA123:
  "fetchRouteForCallsign worldPrimary emptyResolver ''ACA123'' =
     (Some routeYYZLAX, resolverACA123, [adsbdb])"
  by (simp add: fetchRouteForCallsign_def normalize_ACA123 airlineKey_ACA123 emptyResolver_def
      Let_def getRouteSourceOrderForAirline_def defaultOrder_def fetchRouteFrom_def
      adsbdb_worldPrimary usable_def routeYYZLAX_def recordRouteSourceSuccess_def
      resolverACA123_def)



section \<open>A resolution that misses the cache\<close>

lemma successCount_record:
  "successCount (recordRouteSourceSuccess st airlineKey src) k s =
     successCount st k s + (if k = airlineKey \<and> s = src then 1 else 0)"
  by (simp add: successCount_def recordRouteSourceSuccess_def Let_def split: option.splits)

lemma successCount_cache_upd:
  "successCount (st\<lparr>routeCache := c\<rparr>) k s = successCount st k s"
  by (simp add: successCount_def)

lemma trySources_first:
  assumes "i < length order"
    and "usable (fetchRouteFrom e (order ! i) key)"
    and "\<forall>j<i. \<not> usable (fetchRouteFrom e (order ! j) key)"
  shows "trySources e st key airlineKey order =
           (fetchRouteFrom e (order ! i) key,
            recordRouteSourceSuccess
              (st\<lparr>routeCache := (routeCache st)(key \<mapsto> fetchRouteFrom e (order ! i) key)\<rparr>)
              airlineKey (order ! i),
            take (Suc i) order)"
  using assms
proof (induction order arbitrary: i)
  case Nil
  then show ?case by simp
next
  case (Cons src rest)
  show ?case
  proof (cases i)
    case 0
    with Cons.prems show ?thesis by (simp add: Let_def fun_upd_def)
  next
    case (Suc n)
    with Cons.prems have n: "n < length rest" "usable (fetchRouteFrom e (rest ! n) key)"
      by simp_all
    from Cons.prems(3) Suc have first: "\<not> usable (fetchRouteFrom e src key)"
      by auto
    from Cons.prems(3) Suc have "\<forall>j<n. \<not> usable (fetchRouteFrom e (rest ! j) key)"
      by auto
    from Cons.IH[OF n this] first Suc show ?thesis
      by (simp add: Let_def)
  qed
qed

lemma trySources_none:
  "\<forall>s \<in> set order. \<not> usable (fetchRouteFrom e s key) \<Longrightarrow>
   trySources e st key airlineKey order =
     (None, st\<lparr>routeCache := (routeCache st)(key \<mapsto> None)\<rparr>, order)"
  by (induction order) (simp_all add: Let_def)

lemma fetch_miss:
  assumes "key = toUpperCase (trim callSign)" "key \<noteq> []" "routeCache st key = None"
  shows "fetchRouteForCallsign e st callSign =
           trySources e st key (getAirlineKeyFromCallsign key)
             (getRouteSourceOrderForAirline st (getAirlineKeyFromCallsign key))"
  using assms by (auto simp: fetchRouteForCallsign_def Let_def trim_def toUpperCase_def)

text \<open>
  Claim C3. On a cache miss the adapters are invoked one after the other in the computed
  order. At the first source whose adapter returns a result with both codes non-empty,
  that result is returned and stored under the normalized callsign, the success count of
  that source for the airline key goes up by one (every other count stays), and the
  sources invoked are exactly those up to and including it. If no source of the order
  returns such a result, every source has been invoked, absent is stored under the
  callsign and returned, and the counts stay as they are.
\<close>

theorem resolver_miss:
  assumes key: "key = toUpperCase (trim callSign)" "key \<noteq> []"
    and miss: "routeCache st key = None"
    and ak: "airlineKey = getAirlineKeyFromCallsign key"
    and ord: "order = getRouteSourceOrderForAirline st airlineKey"
    and run: "fetchRouteForCallsign e st callSign = (res, st', invoked)"
  shows "(\<forall>i<length order.
            usable (fetchRouteFrom e (order ! i) key)
            \<and> (\<forall>j<i. \<not> usable (fetchRouteFrom e (order ! j) key)) \<longrightarrow>
              res = fetchRouteFrom e (order ! i) key
              \<and> invoked = take (Suc i) order
              \<and> routeCache st' = (routeCache st)(key \<mapsto> res)
              \<and> (\<forall>k s. successCount st' k s =
                    successCount st k s + (if k = airlineKey \<and> s = order ! i then 1 else 0)))
       \<and> ((\<forall>s \<in> set order. \<not> usable (fetchRouteFrom e s key)) \<longrightarrow>
              res = None \<and> invoked = order
              \<and> routeCache st' = (routeCache st)(key \<mapsto> None)
              \<and> routeSourceStats st' = routeSourceStats st)"
proof -
  have run': "trySources e st key airlineKey order = (res, st', invoked)"
    using fetch_miss[OF key miss] ak ord run by simp
  show ?thesis
  proof (intro conjI allI impI)
    fix i
    assume i: "i < length order"
      and u: "usable (fetchRouteFrom e (order ! i) key)
              \<and> (\<forall>j<i. \<not> usable (fetchRouteFrom e (order ! j) key))"
    from trySources_first[OF i, of e key st airlineKey] u run'
    have eq: "res = fetchRouteFrom e (order ! i) key"
        "st' = recordRouteSourceSuccess
                 (st\<lparr>routeCache := (routeCache st)(key \<mapsto> fetchRouteFrom e (order ! i) key)\<rparr>)
                 airlineKey (order ! i)"
        "invoked = take (Suc i) order"
      by simp_all
    show "res = fetchRouteFrom e (order ! i) key" by (rule eq(1))
    show "invoked = take (Suc i) order" by (rule eq(3))
    show "routeCache st' = (routeCache st)(key \<mapsto> res)"
      using eq(1,2) by (simp add: recordRouteSourceSuccess_cache)
    fix k s
    show "successCount st' k s =
            successCount st k s + (if k = airlineKey \<and> s = order ! i then 1 else 0)"
      unfolding eq(2) by (simp only: successCount_record successCount_cache_upd)
  next
    assume n: "\<forall>s \<in> set order. \<not> usable (fetchRouteFrom e s key)"
    from trySources_none[OF n, of st airlineKey] run'
    have eq: "res = None" "st' = st\<lparr>routeCache := (routeCache st)(key \<mapsto> None)\<rparr>"
        "invoked = order"
      by simp_all
    show "res = None" by (rule eq(1))
    show "invoked = order" by (rule eq(3))
    show "routeCache st' = (routeCache st)(key \<mapsto> None)" using eq(2) by simp
    show "routeSourceStats st' = routeSourceStats st" using eq(2) by simp
  qed
qed

lemma adapters_worldDown: "\<not> usable (fetchRouteFrom worldDown s ''ACA123'')"
  by (cases s)
     (simp_all add: fetchRouteFrom_def fetchRouteFromAdsbdb_def fetchRouteFromAeroDataBox_def
        fetchRouteFromAviationStack_def worldDown_def keyAbsent_def usable_def)

lemma order_cold: "getRouteSourceOrderForAirline emptyResolver k = defaultOrder"
  by (simp add: getRouteSourceOrderForAirline_def emptyResolver_def)

theorem resolver_miss_witness:
  "routeCache emptyResolver ''ACA123'' = None
   \<and> getRouteSourceOrderForAirline emptyResolver ''ACA'' = [adsbdb, aerodatabox, aviationstack]
   \<and> usable (fetchRouteFrom worldPrimary adsbdb ''ACA123'')
   \<and> fetchRouteForCallsign worldPrimary emptyResolver ''ACA123''
       = (Some routeYYZLAX, resolverACA123, [adsbdb])
   \<and> successCount resolverACA123 ''ACA'' adsbdb = successCount emptyResolver ''ACA'' adsbdb + 1
   \<and> routeCache resolverACA123 = (routeCache emptyResolver)(''ACA123'' \<mapsto> Some routeYYZLAX)
   \<and> \<not> usable (fetchRouteFrom worldDown adsbdb ''ACA123'')
   \<and> \<not> usable (fetchRouteFrom worldDown aerodatabox ''ACA123'')
   \<and> \<not> usable (fetchRouteFrom worldDown aviationstack ''ACA123'')
   \<and> fst (fetchRouteForCallsign worldDown emptyResolver ''ACA123'') = None
   \<and> snd (snd (fetchRouteForCallsign worldDown emptyResolver ''ACA123''))
       = [adsbdb, aerodatabox, aviationstack]"
proof -
  have k: "''ACA123'' = toUpperCase (trim ''ACA123'')" "''ACA123'' \<noteq> []"
    by (simp_all add: normalize_ACA123)
  have m: "routeCache emptyResolver ''ACA123'' = None" by (simp add: emptyResolver_def)
  have a: "''ACA'' = getAirlineKeyFromCallsign ''ACA123''" by (simp add: airlineKey_ACA123)
  have o: "[adsbdb, aerodatabox, aviationstack] = getRouteSourceOrderForAirline emptyResolver ''ACA''"
    by (simp add: order_cold defaultOrder_def)
  have u: "usable (fetchRouteFrom worldPrimary adsbdb ''ACA123'')"
    by (simp add: fetchRouteFrom_def adsbdb_worldPrimary usable_def routeYYZLAX_def)
  have d: "\<forall>s \<in> set [adsbdb, aerodatabox, aviationstack].
             \<not> usable (fetchRouteFrom worldDown s ''ACA123'')"
    using adapters_worldDown by blast
  obtain r2 st2 inv2 where run2:
    "fetchRouteForCallsign worldDown emptyResolver ''ACA123'' = (r2, st2, inv2)"
    by (cases "fetchRouteForCallsign worldDown emptyResolver ''ACA123''")
  from resolver_miss[OF k m a o first_call_ACA123] u
  have c1: "successCount resolverACA123 ''ACA'' adsbdb = successCount emptyResolver ''ACA'' adsbdb + 1"
    and c2: "routeCache resolverACA123 = (routeCache emptyResolver)(''ACA123'' \<mapsto> Some routeYYZLAX)"
    by force+
  from resolver_miss[OF k m a o run2] d
  have c3: "r2 = None" "inv2 = [adsbdb, aerodatabox, aviationstack]" by blast+
  from m o[symmetric] u first_call_ACA123 c1 c2 adapters_worldDown c3 run2
  show ?thesis by simp
qed

section \<open>What the cache holds\<close>

lemma mkRoute_upper:
  "mkRoute a b = Inr r \<Longrightarrow>
   toUpperCase (originIcao r) = originIcao r \<and> toUpperCase (destinationIcao r) = destinationIcao r"
  by (auto simp: mkRoute_def toUpperCase_idem split: sum.splits)

lemma adsbdb_upper:
  "fetchRouteFromAdsbdb e key = Some r \<Longrightarrow>
   toUpperCase (originIcao r) = originIcao r \<and> toUpperCase (destinationIcao r) = destinationIcao r"
  unfolding fetchRouteFromAdsbdb_def Let_def
  by (auto split: sum.splits if_splits dest: mkRoute_upper)

lemma aeroTry_upper:
  "aeroDataBoxTry e c = Inr (Some r) \<Longrightarrow>
   toUpperCase (originIcao r) = originIcao r \<and> toUpperCase (destinationIcao r) = destinationIcao r"
  unfolding aeroDataBoxTry_def
  by (auto split: sum.splits if_splits json.splits list.splits dest: mkRoute_upper)

lemma aeroLoop_upper:
  "aeroDataBoxLoop e cs = (Some r, asked) \<Longrightarrow>
   toUpperCase (originIcao r) = originIcao r \<and> toUpperCase (destinationIcao r) = destinationIcao r"
proof (induction cs arbitrary: asked)
  case Nil
  then show ?case by simp
next
  case (Cons c cs)
  then show ?case
    by (auto split: sum.splits option.splits prod.splits dest: aeroTry_upper)
qed

lemma aero_upper:
  "fst (fetchRouteFromAeroDataBox e key) = Some r \<Longrightarrow>
   toUpperCase (originIcao r) = originIcao r \<and> toUpperCase (destinationIcao r) = destinationIcao r"
  unfolding fetchRouteFromAeroDataBox_def Let_def
  by (cases "aeroDataBoxLoop e (buildFlightNumberCandidates key)")
     (auto split: if_splits dest: aeroLoop_upper)

lemma aviationstack_upper:
  "fetchRouteFromAviationStack e key = Some r \<Longrightarrow>
   toUpperCase (originIcao r) = originIcao r \<and> toUpperCase (destinationIcao r) = destinationIcao r"
  unfolding fetchRouteFromAviationStack_def Let_def
  by (auto split: sum.splits if_splits json.splits list.splits dest: mkRoute_upper)

lemma fetchRouteFrom_upper:
  "fetchRouteFrom e src key = Some r \<Longrightarrow>
   toUpperCase (originIcao r) = originIcao r \<and> toUpperCase (destinationIcao r) = destinationIcao r"
  unfolding fetchRouteFrom_def
  by (cases src) (auto dest: adsbdb_upper aero_upper aviationstack_upper)

lemma usable_adapter_routeOk:
  "usable (fetchRouteFrom e src key) \<Longrightarrow> fetchRouteFrom e src key = Some r \<Longrightarrow> routeOk r"
  using fetchRouteFrom_upper[of e src key r] by (simp add: usable_def routeOk_def)

lemma trySources_result_ok:
  "trySources e st key airlineKey order = (Some r, st', invoked) \<Longrightarrow> routeOk r"
proof (induction order arbitrary: invoked)
  case Nil
  then show ?case by simp
next
  case (Cons src rest)
  show ?case
  proof (cases "usable (fetchRouteFrom e src key)")
    case True
    with Cons.prems have "fetchRouteFrom e src key = Some r" by (simp add: Let_def)
    with True show ?thesis by (rule usable_adapter_routeOk)
  next
    case False
    with Cons.prems obtain inv' where "trySources e st key airlineKey rest = (Some r, st', inv')"
      by (auto simp: Let_def split: prod.splits)
    then show ?thesis by (rule Cons.IH)
  qed
qed

lemma fetch_cacheOk:
  assumes "cacheOk st" "fetchRouteForCallsign e st callSign = (res, st', invoked)"
  shows "cacheOk st' \<and> (\<forall>r. res = Some r \<longrightarrow> routeOk r)"
proof (cases "callSign = [] \<or> toUpperCase (trim callSign) = []")
  case True
  with assms show ?thesis by (auto simp: fetchRouteForCallsign_def Let_def split: if_splits)
next
  case False
  note ne = this
  show ?thesis
  proof (cases "routeCache st (toUpperCase (trim callSign))")
    case (Some cached)
    with ne assms show ?thesis
      by (auto simp: fetchRouteForCallsign_def Let_def cacheOk_def)
  next
    case None
    with ne assms(2) obtain ak ord where
      t: "trySources e st (toUpperCase (trim callSign)) ak ord = (res, st', invoked)"
      by (auto simp: fetchRouteForCallsign_def Let_def)
    have c: "routeCache st' = (routeCache st)(toUpperCase (trim callSign) \<mapsto> res)"
      using trySources_cache[OF t] .
    have r: "\<forall>r. res = Some r \<longrightarrow> routeOk r"
      using t trySources_result_ok by blast
    from assms(1) c r have "cacheOk st'"
      by (auto simp: cacheOk_def split: if_splits)
    with r show ?thesis by simp
  qed
qed

lemma resolveAll_cacheOk:
  "cacheOk st0 \<Longrightarrow> resolveAll st0 calls = (ress, st) \<Longrightarrow>
   (\<forall>r. Some r \<in> set ress \<longrightarrow> routeOk r) \<and> cacheOk st"
proof (induction calls arbitrary: st0 ress)
  case Nil
  then show ?case by simp
next
  case (Cons c calls)
  obtain e cs where c: "c = (e, cs)" by (cases c)
  obtain r st1 inv where f: "fetchRouteForCallsign e st0 cs = (r, st1, inv)"
    by (cases "fetchRouteForCallsign e st0 cs")
  obtain rs st2 where ra: "resolveAll st1 calls = (rs, st2)"
    by (cases "resolveAll st1 calls")
  from Cons.prems(2) c f ra have eq: "ress = r # rs" "st = st2" by simp_all
  from fetch_cacheOk[OF Cons.prems(1) f]
  have ok1: "cacheOk st1" "\<forall>x. r = Some x \<longrightarrow> routeOk x" by simp_all
  from Cons.IH[OF ok1(1), of rs] ra eq
  have "(\<forall>r. Some r \<in> set rs \<longrightarrow> routeOk r) \<and> cacheOk st" by simp
  with ok1(2) eq show ?case by auto
qed

text \<open>
  Claim C10. Whatever sequence of resolutions the process has run from its start, whichever
  adapter answered and in whatever letter case the upstream payloads were, every route
  returned to a caller and every route held in the cache has an origin and a destination
  code that are non-empty and equal to their own upper-cased forms.
\<close>

theorem route_cache_upper_invariant:
  assumes "resolveAll emptyResolver calls = (ress, st)"
  shows "(\<forall>r. Some r \<in> set ress \<longrightarrow> routeOk r)
       \<and> (\<forall>k r. routeCache st k = Some (Some r) \<longrightarrow> routeOk r)"
proof -
  have "cacheOk emptyResolver" by (simp add: cacheOk_def emptyResolver_def)
  from resolveAll_cacheOk[OF this assms] show ?thesis by (simp add: cacheOk_def)
qed

theorem route_cache_upper_invariant_witness:
  "resolveAll emptyResolver [(worldPrimary, ''ACA123'')] = ([Some routeYYZLAX], resolverACA123)
   \<and> Some routeYYZLAX \<in> set [Some routeYYZLAX]
   \<and> routeCache resolverACA123 ''ACA123'' = Some (Some routeYYZLAX)
   \<and> routeOk routeYYZLAX"
proof -
  have h: "resolveAll emptyResolver [(worldPrimary, ''ACA123'')]
             = ([Some routeYYZLAX], resolverACA123)"
    by (simp add: first_call_ACA123)
  have c: "routeCache resolverACA123 ''ACA123'' = Some (Some routeYYZLAX)"
    by (simp add: resolverACA123_def)
  from route_cache_upper_invariant[OF h] c have "routeOk routeYYZLAX" by blast
  with h c show ?thesis by simp
qed

section \<open>The order in which the sources are tried\<close>

lemma defaultRank_simps:
  "defaultRank adsbdb = 0" "defaultRank aerodatabox = 1" "defaultRank aviationstack = 2"
  by (simp_all add: defaultRank_def defaultOrder_def)

lemma order_sorted:
  "sorted_wrt (triedBefore st k) (getRouteSourceOrderForAirline st k)
   \<and> distinct (getRouteSourceOrderForAirline st k)
   \<and> set (getRouteSourceOrderForAirline st k) = {adsbdb, aerodatabox, aviationstack}"
  by (auto simp: getRouteSourceOrderForAirline_def defaultOrder_def triedBefore_def
      successCount_def defaultRank_simps split: option.splits)

lemma order_cold_start:
  "\<forall>s. successCount st k s = 0 \<Longrightarrow> getRouteSourceOrderForAirline st k = defaultOrder"
  by (auto simp: getRouteSourceOrderForAirline_def defaultOrder_def successCount_def
      split: option.splits)

lemma order_hd:
  assumes "\<forall>y. y \<noteq> x \<longrightarrow> triedBefore st k x y"
  shows "hd (getRouteSourceOrderForAirline st k) = x"
  using assms
  by (cases x)
     (auto simp: getRouteSourceOrderForAirline_def defaultOrder_def triedBefore_def
        successCount_def defaultRank_simps split: option.splits)

lemma trySources_invokes_hd:
  "order \<noteq> [] \<Longrightarrow> trySources e st key airlineKey order = (res, st', invoked) \<Longrightarrow>
   invoked \<noteq> [] \<and> hd invoked = hd order"
  by (cases order) (auto simp: Let_def split: if_splits prod.splits)

lemma fetch_miss_invokes_hd:
  assumes "toUpperCase (trim callSign) \<noteq> []"
    and "routeCache st (toUpperCase (trim callSign)) = None"
  shows "snd (snd (fetchRouteForCallsign e st callSign)) \<noteq> []
       \<and> hd (snd (snd (fetchRouteForCallsign e st callSign)))
           = hd (getRouteSourceOrderForAirline st
                   (getAirlineKeyFromCallsign (toUpperCase (trim callSign))))"
proof -
  let ?key = "toUpperCase (trim callSign)"
  let ?ord = "getRouteSourceOrderForAirline st (getAirlineKeyFromCallsign ?key)"
  have ne: "?ord \<noteq> []" using order_sorted[of st "getAirlineKeyFromCallsign ?key"] by auto
  obtain res st' inv where t:
    "trySources e st ?key (getAirlineKeyFromCallsign ?key) ?ord = (res, st', inv)"
    by (cases "trySources e st ?key (getAirlineKeyFromCallsign ?key) ?ord")
  from fetch_miss[OF refl assms] t
  have "fetchRouteForCallsign e st callSign = (res, st', inv)" by simp
  with trySources_invokes_hd[OF ne t] show ?thesis by simp
qed

text \<open>
  Claim C2, as amended. For every airline key the try-order is the three sources, each
  once, sorted by recorded success count in descending order with ties broken by the
  default order adsbdb, aerodatabox, aviationstack; with no recorded success it is the
  default order. A source is tried first by a fresh resolution of an uncached callsign
  with that airline key when it has more recorded successes than every source before it in
  the default order and at least as many as every source after it.
\<close>

theorem source_order_by_success_count:
  assumes "order = getRouteSourceOrderForAirline st airlineKey"
  shows "sorted_wrt (triedBefore st airlineKey) order
       \<and> distinct order
       \<and> set order = {adsbdb, aerodatabox, aviationstack}
       \<and> ((\<forall>s. successCount st airlineKey s = 0) \<longrightarrow> order = defaultOrder)
       \<and> (\<forall>x. (\<forall>y. y \<noteq> x \<longrightarrow> triedBefore st airlineKey x y) \<longrightarrow>
             hd order = x
             \<and> (\<forall>e callSign.
                   toUpperCase (trim callSign) \<noteq> []
                   \<and> routeCache st (toUpperCase (trim callSign)) = None
                   \<and> getAirlineKeyFromCallsign (toUpperCase (trim callSign)) = airlineKey \<longrightarrow>
                     snd (snd (fetchRouteForCallsign e st callSign)) \<noteq> []
                     \<and> hd (snd (snd (fetchRouteForCallsign e st callSign))) = x))"
proof (intro conjI allI impI)
  show "sorted_wrt (triedBefore st airlineKey) order" "distinct order"
    "set order = {adsbdb, aerodatabox, aviationstack}"
    using order_sorted[of st airlineKey] assms by simp_all
next
  assume "\<forall>s. successCount st airlineKey s = 0"
  then show "order = defaultOrder" using order_cold_start assms by simp
next
  fix x
  assume x: "\<forall>y. y \<noteq> x \<longrightarrow> triedBefore st airlineKey x y"
  then show h: "hd order = x" using order_hd assms by simp
  fix e callSign
  assume c: "toUpperCase (trim callSign) \<noteq> []
           \<and> routeCache st (toUpperCase (trim callSign)) = None
           \<and> getAirlineKeyFromCallsign (toUpperCase (trim callSign)) = airlineKey"
  then have "snd (snd (fetchRouteForCallsign e st callSign)) \<noteq> []
       \<and> hd (snd (snd (fetchRouteForCallsign e st callSign))) = hd order"
    using fetch_miss_invokes_hd[of callSign st e] assms by simp
  with h show "snd (snd (fetchRouteForCallsign e st callSign)) \<noteq> []"
    "hd (snd (snd (fetchRouteForCallsign e st callSign))) = x" by simp_all
qed

lemma cands_ACA2: "buildFlightNumberCandidates ''ACA2'' = [''ACA2'', ''AC2'']"
  by (simp add: buildFlightNumberCandidates_def parseFlightNumberFromCallsign_def Let_def
      setAdd_def ICAO_TO_IATA_def string_defs)

lemma aeroTry_AC: "aeroDataBoxTry worldFlightNumber ''AC2'' = Inr (Some routeYYZYVR)"
  by (simp add: aeroDataBoxTry_def aeroFlights_def aeroOrigin_def aeroDestination_def
      worldFlightNumber_def flightsPayload_def Let_def jsOr_def
      aeroDepAliases_def aeroArrAliases_def aeroIcaoAliases_def mkRoute_def routeYYZYVR_def
      string_defs)

lemma aeroTry_ACA: "aeroDataBoxTry worldFlightNumber ''ACA2'' = Inr None"
  by (simp add: aeroDataBoxTry_def aeroFlights_def worldFlightNumber_def flightsPayload_def
      Let_def jsOr_def string_defs)

lemma aero_ACA2:
  "fetchRouteFromAeroDataBox worldFlightNumber ''ACA2'' = (Some routeYYZYVR, [''ACA2'', ''AC2''])"
  by (simp add: fetchRouteFromAeroDataBox_def keyAbsent_def cands_ACA2 aeroTry_AC aeroTry_ACA
      Let_def) (simp add: worldFlightNumber_def)

lemmas adapter_defs = fetchRouteFrom_def fetchRouteFromAdsbdb_def fetchRouteFromAeroDataBox_def
  fetchRouteFromAviationStack_def aeroDataBoxTry_def aeroFlights_def aeroOrigin_def
  aeroDestination_def buildFlightNumberCandidates_def
  parseFlightNumberFromCallsign_def setAdd_def ICAO_TO_IATA_def keyAbsent_def mkRoute_def
  jsOr_def aeroDepAliases_def aeroArrAliases_def aeroIcaoAliases_def usable_def Let_def

lemmas resolver_defs = fetchRouteForCallsign_def getAirlineKeyFromCallsign_def
  getRouteSourceOrderForAirline_def defaultOrder_def recordRouteSourceSuccess_def
  emptyResolver_def successCount_def

lemmas world_defs = worldPrimary_def worldDown_def worldFlightNumber_def flightsPayload_def
  routeYYZLAX_def routeYYZYVR_def

lemma call_ACA1:
  "fetchRouteForCallsign worldPrimary emptyResolver ''ACA1'' =
     (Some routeYYZLAX, resolverACA1, [adsbdb])"
  by (simp add: resolver_defs adapter_defs world_defs string_defs resolverACA1_def)

lemma call_ACA2_empty:
  "fetchRouteForCallsign worldFlightNumber emptyResolver ''ACA2'' =
     (Some routeYYZYVR, resolverFlightNumber, [adsbdb, aerodatabox])"
  by (simp add: resolver_defs adapter_defs world_defs string_defs resolverFlightNumber_def)

lemma call_ACA2:
  "fetchRouteForCallsign worldFlightNumber resolverACA1 ''ACA2'' =
     (Some routeYYZYVR, resolverTie, [adsbdb, aerodatabox])"
  by (simp add: resolver_defs adapter_defs world_defs string_defs resolverTie_def
      resolverACA1_def)

lemma call_ACA3:
  "snd (snd (fetchRouteForCallsign worldFlightNumber resolverTie ''ACA3''))
     = [adsbdb, aerodatabox]"
  by (simp add: resolver_defs adapter_defs world_defs string_defs resolverTie_def)

text \<open>
  The claim as first stated lets the source with a positive count and no larger count
  elsewhere be tried first. After one success of adsbdb and one of aerodatabox for the
  airline key ACA, aerodatabox has a positive count that no other source exceeds, and a
  fresh resolution of ACA3 still invokes adsbdb first.
\<close>

theorem equal_count_not_first_counterexample:
  "resolveAll emptyResolver [(worldPrimary, ''ACA1''), (worldFlightNumber, ''ACA2'')]
     = ([Some routeYYZLAX, Some routeYYZYVR], resolverTie)
   \<and> successCount resolverTie ''ACA'' aerodatabox = 1
   \<and> successCount resolverTie ''ACA'' adsbdb = 1
   \<and> successCount resolverTie ''ACA'' aviationstack = 0
   \<and> routeCache resolverTie ''ACA3'' = None
   \<and> toUpperCase (trim ''ACA3'') = ''ACA3''
   \<and> getAirlineKeyFromCallsign ''ACA3'' = ''ACA''
   \<and> snd (snd (fetchRouteForCallsign worldFlightNumber resolverTie ''ACA3''))
       = [adsbdb, aerodatabox]"
proof -
  have "successCount resolverTie ''ACA'' aerodatabox = 1"
    "successCount resolverTie ''ACA'' adsbdb = 1"
    "successCount resolverTie ''ACA'' aviationstack = 0"
    "routeCache resolverTie ''ACA3'' = None"
    by (simp_all add: successCount_def resolverTie_def)
  moreover have "toUpperCase (trim ''ACA3'') = ''ACA3''"
    "getAirlineKeyFromCallsign ''ACA3'' = ''ACA''"
    by (simp_all add: getAirlineKeyFromCallsign_def Let_def string_defs)
  ultimately show ?thesis
    by (simp add: call_ACA1 call_ACA2 call_ACA3)
qed

theorem source_order_by_success_count_witness:
  "fetchRouteForCallsign worldFlightNumber emptyResolver ''ACA2''
     = (Some routeYYZYVR, resolverFlightNumber, [adsbdb, aerodatabox])
   \<and> getRouteSourceOrderForAirline resolverFlightNumber ''ACA''
       = [aerodatabox, adsbdb, aviationstack]
   \<and> triedBefore resolverFlightNumber ''ACA'' aerodatabox adsbdb
   \<and> triedBefore resolverFlightNumber ''ACA'' aerodatabox aviationstack
   \<and> toUpperCase (trim ''ACA7'') \<noteq> []
   \<and> routeCache resolverFlightNumber (toUpperCase (trim ''ACA7'')) = None
   \<and> getAirlineKeyFromCallsign (toUpperCase (trim ''ACA7'')) = ''ACA''
   \<and> hd (snd (snd (fetchRouteForCallsign worldDown resolverFlightNumber ''ACA7''))) = aerodatabox
   \<and> getRouteSourceOrderForAirline emptyResolver ''ACA'' = defaultOrder"
proof -
  have o: "[aerodatabox, adsbdb, aviationstack]
             = getRouteSourceOrderForAirline resolverFlightNumber ''ACA''"
    by (simp add: getRouteSourceOrderForAirline_def resolverFlightNumber_def defaultOrder_def)
  have t: "\<forall>y. y \<noteq> aerodatabox \<longrightarrow> triedBefore resolverFlightNumber ''ACA'' aerodatabox y"
    by (simp add: triedBefore_def successCount_def resolverFlightNumber_def)
  have k: "toUpperCase (trim ''ACA7'') \<noteq> []
           \<and> routeCache resolverFlightNumber (toUpperCase (trim ''ACA7'')) = None
           \<and> getAirlineKeyFromCallsign (toUpperCase (trim ''ACA7'')) = ''ACA''"
    by (simp add: getAirlineKeyFromCallsign_def Let_def string_defs resolverFlightNumber_def)
  have z: "\<forall>s. successCount emptyResolver ''ACA'' s = 0"
    by (simp add: successCount_def emptyResolver_def)
  from source_order_by_success_count[OF o] t k
  have "hd (snd (snd (fetchRouteForCallsign worldDown resolverFlightNumber ''ACA7''))) = aerodatabox"
    by blast
  moreover from source_order_by_success_count[OF refl, of emptyResolver "''ACA''"] z
  have "getRouteSourceOrderForAirline emptyResolver ''ACA'' = defaultOrder" by blast
  ultimately show ?thesis using o[symmetric] t k call_ACA2_empty by simp
qed

section \<open>The flight-number adapter\<close>

















section \<open>Display names\<close>

lemma airportsFromText_example: "airportsFromText airportsText = airportsTable"
  by (simp add: airportsFromText_def airportsText_def splitLines_def addAirportLine_def
      parseCsvLine_def Let_def airportsTable_def string_defs)

lemma countriesFromText_example: "countriesFromText countriesText = countriesTable"
  by (simp add: countriesFromText_def countriesText_def splitLines_def addCountryLine_def
      parseCsvLine_def colAt_def setEntry_def Let_def countriesTable_def string_defs)

lemma upper_lfxx: "toUpperCase ''lfxx'' = ''LFXX''" "toUpperCase ''LFPG'' = ''LFPG''"
  by (simp_all add: string_defs)

lemma display_first_call:
  "getAirportDisplay netOk emptyStore ''lfxx''
     = (Some ''Paris, function Object() { [native code] }'', storeLoaded, [Airports, Countries])"
  by (simp add: getAirportDisplay_def loadAirportDb_def loadCountryDb_def emptyStore_def
      netOk_def airportsFromResponse_def countriesFromResponse_def airportsFromText_example
      countriesFromText_example storeLoaded_def upper_lfxx Let_def airportDisplayFrom_def
      airportsTable_def countriesTable_def lookupIso2_def objectPrototypeNames_def
      inheritedText_def)

lemma display_LFPG:
  "getAirportDisplay netOk storeLoaded ''LFPG'' = (Some ''Paris, FR'', storeLoaded, [])"
  by (simp add: getAirportDisplay_def loadAirportDb_def loadCountryDb_def
      storeLoaded_def upper_lfxx Let_def airportDisplayFrom_def
      airportsTable_def countriesTable_def lookupIso2_def objectPrototypeNames_def
      inheritedText_def)

lemma lookupIso2_own_names:
  assumes "name \<notin> set objectPrototypeNames"
  shows "lookupIso2 countries name =
           (case countries name of None \<Rightarrow> None
            | Some code \<Rightarrow> if code = [] then None else Some code)"
  using assms by (simp add: lookupIso2_def split: option.splits)

lemma airportDisplayFrom_cases:
  assumes "airports icao = Some info"
    and "countryName info \<notin> set objectPrototypeNames"
    and "\<forall>name. countries name \<noteq> Some []"
  shows "airportDisplayFrom airports countries icao =
           (if city info \<noteq> [] then
              (case countries (countryName info) of
                 Some iso2 \<Rightarrow> Some (city info @ '', '' @ iso2)
               | None \<Rightarrow>
                   (if countryName info \<noteq> [] then Some (city info @ '', '' @ countryName info)
                    else Some (city info)))
            else if countryName info \<noteq> [] then Some (countryName info)
            else None)"
  using assms
  by (auto simp: airportDisplayFrom_def Let_def lookupIso2_own_names split: option.splits)

lemma airportDisplayFrom_no_record:
  "airports icao = None \<Longrightarrow> airportDisplayFrom airports countries icao = None"
  by (simp add: airportDisplayFrom_def)

text \<open>
  Claim C5. The display name follows the stated priority whenever the country name of the
  airport record is not a name that every object inherits. It does not for a record whose
  country name is such a name and has no entry in the country table: the lookup
  \<open>countries[countryName]\<close> then yields the inherited member, which is truthy, and the
  result is the city followed by the text of that member instead of the city followed by
  the country name. For the airport file row with city Paris and country
  \<open>constructor\<close>:
\<close>

theorem display_name_inherited_member:
  "getAirportDisplay netOk emptyStore ''lfxx''
     = (Some ''Paris, function Object() { [native code] }'', storeLoaded, [Airports, Countries])"
  by (rule display_first_call)

section \<open>Failed loads\<close>
















section \<open>Loading a dataset once\<close>

lemma loaderStep_loaded:
  "slot ls \<noteq> None \<Longrightarrow>
   requests (loaderStep build ls ev) = requests ls \<and> slot (loaderStep build ls ev) \<noteq> None"
  by (auto simp: loaderStep_def Let_def split: event.splits caller.splits option.splits)

lemma runLoader_loaded:
  "slot ls \<noteq> None \<Longrightarrow>
   requests (runLoader build ls evs) = requests ls \<and> slot (runLoader build ls evs) \<noteq> None"
  unfolding runLoader_def
proof (induction evs arbitrary: ls)
  case Nil
  then show ?case by simp
next
  case (Cons ev evs)
  from loaderStep_loaded[OF Cons.prems, of build ev] Cons.IH[of "loaderStep build ls ev"]
  show ?case by simp
qed

lemma enter_unloaded:
  "slot ls = None \<Longrightarrow> callers ls i = Idle \<Longrightarrow>
   requests (loaderStep build ls (Enter i)) = requests ls + 1
   \<and> slot (loaderStep build ls (Enter i)) = None"
  by (simp add: loaderStep_def)

lemma runLoader_Cons:
  "runLoader build ls (ev # evs) = runLoader build (loaderStep build ls ev) evs"
  by (simp add: runLoader_def)

lemma oneAfterAnother_requests:
  "requests (runLoader build initLoader (oneAfterAnother calls)) \<le> 1"
proof (cases calls)
  case Nil
  then show ?thesis by (simp add: runLoader_def initLoader_def)
next
  case (Cons c rest)
  obtain i resp where c: "c = (i, resp)" by (cases c)
  let ?ls = "loaderStep build (loaderStep build initLoader (Enter i)) (Settle i resp)"
  have s: "slot ?ls \<noteq> None" "requests ?ls = 1"
    by (simp_all add: loaderStep_def initLoader_def Let_def)
  from runLoader_loaded[OF s(1), of build "oneAfterAnother rest"] s(2) Cons c
  show ?thesis by (simp add: runLoader_Cons)
qed

text \<open>
  Claim C8, as amended. Once a load of a dataset has completed, no later call issues a
  request for it, whatever the interleaving; so calls that do not overlap issue at most
  one request in total. A caller that enters before any load has completed issues a
  request of its own.
\<close>

theorem loader_requests:
  "(slot ls \<noteq> None \<longrightarrow>
      requests (runLoader build ls evs) = requests ls \<and> slot (runLoader build ls evs) \<noteq> None)
   \<and> requests (runLoader build initLoader (oneAfterAnother calls)) \<le> 1
   \<and> (slot ls = None \<and> callers ls i = Idle \<longrightarrow>
        requests (loaderStep build ls (Enter i)) = requests ls + 1
        \<and> slot (loaderStep build ls (Enter i)) = None)"
  using runLoader_loaded[of ls build evs] oneAfterAnother_requests[of build calls]
    enter_unloaded[of ls i build]
  by blast

lemmas loader_defs = runLoader_def loaderStep_def initLoader_def Let_def

theorem loader_requests_witness:
  "slot (runLoader airportsFromResponse initLoader [Enter 0, Settle 0 (Inl NetworkError)])
     = Some Map.empty
   \<and> requests (runLoader airportsFromResponse initLoader [Enter 0, Settle 0 (Inl NetworkError)])
       = 1
   \<and> requests (runLoader airportsFromResponse
        (runLoader airportsFromResponse initLoader [Enter 0, Settle 0 (Inl NetworkError)])
        [Enter 1, Enter 2, Settle 1 (Inr (JStr airportsText))]) = 1
   \<and> slot (initLoader :: (string \<rightharpoonup> airportInfo) loader) = None
   \<and> callers (initLoader :: (string \<rightharpoonup> airportInfo) loader) 0 = Idle
   \<and> requests (loaderStep airportsFromResponse initLoader (Enter 0)) = 1"
proof -
  let ?ls = "runLoader airportsFromResponse initLoader [Enter 0, Settle 0 (Inl NetworkError)]"
  have s: "slot ?ls = Some Map.empty" "requests ?ls = 1"
    by (simp_all add: loader_defs airportsFromResponse_def)
  then have n: "slot ?ls \<noteq> None" by simp
  have i: "slot (initLoader :: (string \<rightharpoonup> airportInfo) loader) = None
      \<and> callers (initLoader :: (string \<rightharpoonup> airportInfo) loader) 0 = Idle"
    by (simp add: initLoader_def)
  note inst = loader_requests[of ?ls airportsFromResponse
      "[Enter 1, Enter 2, Settle 1 (Inr (JStr airportsText))]" "[]"]
  from inst[THEN conjunct1, THEN mp, OF n] s(2)
  have a: "requests (runLoader airportsFromResponse ?ls
        [Enter 1, Enter 2, Settle 1 (Inr (JStr airportsText))]) = 1" by simp
  note inst0 = loader_requests[of initLoader airportsFromResponse "[]" "[]" 0]
  from inst0[THEN conjunct2, THEN conjunct2, THEN mp, OF i]
  have b: "requests (loaderStep airportsFromResponse initLoader (Enter 0)) = 1"
    by (simp add: initLoader_def)
  from s a i b show ?thesis by simp
qed

text \<open>
  The claim as first stated allows no interleaving of first calls to issue a second
  request. Two callers that both enter before either request has settled (the two
  display-name lookups of one record do) each issue a request, for either dataset.
\<close>

theorem concurrent_first_calls_counterexample:
  "requests (runLoader airportsFromResponse initLoader [Enter 0, Enter 1]) = 2
   \<and> requests (runLoader countriesFromResponse initLoader
        [Enter 0, Enter 1, Settle 0 (Inr (JStr countriesText)),
         Settle 1 (Inr (JStr countriesText))]) = 2"
  by (simp add: loader_defs)

section \<open>Enriching a batch\<close>

lemma enrich_length:
  "length (enrichAircraftWithRoutes f d acs) = length acs"
  by (simp add: enrichAircraftWithRoutes_def)

lemma enrich_nth:
  "i < length acs \<Longrightarrow>
   enrichAircraftWithRoutes f d acs ! i = enrichTask (f i) (d i) (acs ! i)"
  by (simp add: enrichAircraftWithRoutes_def nth_enumerate_eq)

lemma enrichTask_keeps:
  "callsign (enrichTask fr ad ac) = callsign ac
   \<and> aircraft.more (enrichTask fr ad ac) = aircraft.more ac"
  by (simp add: enrichTask_def Let_def split: sum.splits option.splits)

lemma enrichTask_resolution_throws:
  "fr (callsign ac) = Inl err \<Longrightarrow> enrichTask fr ad ac = ac"
  by (simp add: enrichTask_def)

lemma enrichTask_display_throws:
  assumes "callsign ac \<noteq> []" "fr (callsign ac) = Inr (Some rt)"
    and "isl (ad (originIcao rt)) \<or> isl (ad (destinationIcao rt))"
  shows "enrichTask fr ad ac =
           ac\<lparr>acOriginIcao := Some (originIcao rt),
               acDestinationIcao := Some (destinationIcao rt)\<rparr>"
  using assms by (auto simp: enrichTask_def Let_def isl_def split: sum.splits)

lemma enrichTask_enriched:
  assumes "callsign ac \<noteq> []" "fr (callsign ac) = Inr (Some rt)"
    and "ad (originIcao rt) = Inr od" "ad (destinationIcao rt) = Inr dd"
  shows "enrichTask fr ad ac =
           ac\<lparr>acOriginIcao := Some (originIcao rt),
               acDestinationIcao := Some (destinationIcao rt),
               originDisplay := od, destinationDisplay := dd\<rparr>"
  using assms by (simp add: enrichTask_def Let_def)

text \<open>
  Claim C4, as amended. The batch comes back with one record per input record, in the
  input order, and each output record is the task of its own input record with its own
  callees: what happens in one task has no effect on another. A throw from the route
  resolution is caught and the record comes back as it went in. A throw from a
  display-name lookup is caught too; the record then comes back with the two route codes
  set and both display names as they were. Without a throw, a record whose route is found
  comes back with codes and display names set.
\<close>

theorem enrich_batch:
  "length (enrichAircraftWithRoutes f d acs) = length acs
   \<and> (\<forall>i<length acs.
        enrichAircraftWithRoutes f d acs ! i = enrichTask (f i) (d i) (acs ! i)
        \<and> callsign (enrichAircraftWithRoutes f d acs ! i) = callsign (acs ! i)
        \<and> aircraft.more (enrichAircraftWithRoutes f d acs ! i) = aircraft.more (acs ! i)
        \<and> (isl (f i (callsign (acs ! i))) \<longrightarrow>
             enrichAircraftWithRoutes f d acs ! i = acs ! i)
        \<and> (\<forall>rt. callsign (acs ! i) \<noteq> [] \<and> f i (callsign (acs ! i)) = Inr (Some rt) \<longrightarrow>
             (isl (d i (originIcao rt)) \<or> isl (d i (destinationIcao rt)) \<longrightarrow>
                enrichAircraftWithRoutes f d acs ! i =
                  (acs ! i)\<lparr>acOriginIcao := Some (originIcao rt),
                            acDestinationIcao := Some (destinationIcao rt)\<rparr>)
             \<and> (\<forall>od dd. d i (originIcao rt) = Inr od \<and> d i (destinationIcao rt) = Inr dd \<longrightarrow>
                  enrichAircraftWithRoutes f d acs ! i =
                    (acs ! i)\<lparr>acOriginIcao := Some (originIcao rt),
                              acDestinationIcao := Some (destinationIcao rt),
                              originDisplay := od, destinationDisplay := dd\<rparr>)))"
proof (intro conjI allI impI)
  show "length (enrichAircraftWithRoutes f d acs) = length acs" by (rule enrich_length)
next
  fix i assume i: "i < length acs"
  show n: "enrichAircraftWithRoutes f d acs ! i = enrichTask (f i) (d i) (acs ! i)"
    using i by (rule enrich_nth)
  show "callsign (enrichAircraftWithRoutes f d acs ! i) = callsign (acs ! i)"
    "aircraft.more (enrichAircraftWithRoutes f d acs ! i) = aircraft.more (acs ! i)"
    using n enrichTask_keeps[of "f i" "d i" "acs ! i"] by simp_all
  {
    assume "isl (f i (callsign (acs ! i)))"
    then obtain err where "f i (callsign (acs ! i)) = Inl err" by (auto simp: isl_def)
    with enrichTask_resolution_throws[of "f i" "acs ! i" err "d i"] n
    show "enrichAircraftWithRoutes f d acs ! i = acs ! i" by simp
  }
  fix rt
  assume r: "callsign (acs ! i) \<noteq> [] \<and> f i (callsign (acs ! i)) = Inr (Some rt)"
  {
    assume "isl (d i (originIcao rt)) \<or> isl (d i (destinationIcao rt))"
    with enrichTask_display_throws[of "acs ! i" "f i" rt "d i"] r n
    show "enrichAircraftWithRoutes f d acs ! i =
            (acs ! i)\<lparr>acOriginIcao := Some (originIcao rt),
                      acDestinationIcao := Some (destinationIcao rt)\<rparr>" by simp
  }
  fix od dd
  assume "d i (originIcao rt) = Inr od \<and> d i (destinationIcao rt) = Inr dd"
  with enrichTask_enriched[of "acs ! i" "f i" rt "d i" od dd] r n
  show "enrichAircraftWithRoutes f d acs ! i =
          (acs ! i)\<lparr>acOriginIcao := Some (originIcao rt),
                    acDestinationIcao := Some (destinationIcao rt),
                    originDisplay := od, destinationDisplay := dd\<rparr>" by simp
qed

lemmas enrich_defs = enrichAircraftWithRoutes_def enrichTask_def batchFetch_def
  batchDisplay_def aircraftACA123_def aircraftNoCallsign_def routeYYZLAX_def Let_def

text \<open>
  The claim as first stated has a record come back un-enriched after a throw from the
  display-name lookup as well. In the batch below the lookups of the record at position 2
  throw, and it comes back with both route codes set.
\<close>

theorem display_throw_counterexample:
  "batchFetch 2 (callsign aircraftACA123) = Inr (Some routeYYZLAX)
   \<and> batchDisplay 2 (originIcao routeYYZLAX) = Inl TypeError
   \<and> enrichAircraftWithRoutes batchFetch batchDisplay
        [aircraftACA123, aircraftACA123, aircraftACA123] ! 2
       = aircraftACA123\<lparr>acOriginIcao := Some ''CYYZ'', acDestinationIcao := Some ''KLAX''\<rparr>
   \<and> enrichAircraftWithRoutes batchFetch batchDisplay
        [aircraftACA123, aircraftACA123, aircraftACA123] ! 2 \<noteq> aircraftACA123"
  by (simp add: enrich_defs enumerate_eq_zip upt_rec)

theorem enrich_batch_witness:
  "length (enrichAircraftWithRoutes batchFetch batchDisplay
             [aircraftACA123, aircraftACA123, aircraftACA123, aircraftNoCallsign]) = 4
   \<and> isl (batchFetch 0 (callsign aircraftACA123))
   \<and> enrichAircraftWithRoutes batchFetch batchDisplay
        [aircraftACA123, aircraftACA123, aircraftACA123, aircraftNoCallsign] ! 0 = aircraftACA123
   \<and> batchFetch 1 (callsign aircraftACA123) = Inr (Some routeYYZLAX)
   \<and> enrichAircraftWithRoutes batchFetch batchDisplay
        [aircraftACA123, aircraftACA123, aircraftACA123, aircraftNoCallsign] ! 1
       = aircraftACA123\<lparr>acOriginIcao := Some ''CYYZ'', acDestinationIcao := Some ''KLAX'',
                         originDisplay := Some ''Toronto, CA'',
                         destinationDisplay := Some ''Los Angeles, US''\<rparr>
   \<and> isl (batchDisplay 2 (originIcao routeYYZLAX))
   \<and> enrichAircraftWithRoutes batchFetch batchDisplay
        [aircraftACA123, aircraftACA123, aircraftACA123, aircraftNoCallsign] ! 2
       = aircraftACA123\<lparr>acOriginIcao := Some ''CYYZ'', acDestinationIcao := Some ''KLAX''\<rparr>
   \<and> enrichAircraftWithRoutes batchFetch batchDisplay
        [aircraftACA123, aircraftACA123, aircraftACA123, aircraftNoCallsign] ! 3
       = aircraftNoCallsign"
proof -
  let ?acs = "[aircraftACA123, aircraftACA123, aircraftACA123, aircraftNoCallsign]"
  note inst = enrich_batch[of batchFetch batchDisplay ?acs]
  note len = inst[THEN conjunct1]
  note at = inst[THEN conjunct2, rule_format]
  have i0: "0 < length ?acs" and i1: "1 < length ?acs" and i2: "2 < length ?acs"
    and i3: "3 < length ?acs" by simp_all
  have t0: "isl (batchFetch 0 (callsign aircraftACA123))"
    by (simp add: batchFetch_def)
  have f1: "batchFetch 1 (callsign aircraftACA123) = Inr (Some routeYYZLAX)"
    by (simp add: batchFetch_def)
  have t2: "isl (batchDisplay 2 (originIcao routeYYZLAX))"
    by (simp add: batchDisplay_def)
  have c: "callsign aircraftACA123 \<noteq> []" by (simp add: aircraftACA123_def)
  have r: "originIcao routeYYZLAX = ''CYYZ''" "destinationIcao routeYYZLAX = ''KLAX''"
    by (simp_all add: routeYYZLAX_def)
  have l: "length (enrichAircraftWithRoutes batchFetch batchDisplay ?acs) = 4"
    using len by simp
  have o0: "enrichAircraftWithRoutes batchFetch batchDisplay ?acs ! 0 = aircraftACA123"
    using at[OF i0, THEN conjunct2, THEN conjunct2, THEN conjunct2, THEN conjunct1] t0
    by simp
  have d1: "batchDisplay 1 (originIcao routeYYZLAX) = Inr (Some ''Toronto, CA'')
      \<and> batchDisplay 1 (destinationIcao routeYYZLAX) = Inr (Some ''Los Angeles, US'')"
    by (simp add: batchDisplay_def r)
  have o1: "enrichAircraftWithRoutes batchFetch batchDisplay ?acs ! 1
       = aircraftACA123\<lparr>acOriginIcao := Some ''CYYZ'', acDestinationIcao := Some ''KLAX'',
                         originDisplay := Some ''Toronto, CA'',
                         destinationDisplay := Some ''Los Angeles, US''\<rparr>"
    using at[OF i1, THEN conjunct2, THEN conjunct2, THEN conjunct2, THEN conjunct2,
        THEN spec[of _ routeYYZLAX], THEN mp, THEN conjunct2,
        THEN spec[of _ "Some ''Toronto, CA''"], THEN spec[of _ "Some ''Los Angeles, US''"],
        THEN mp] c f1 d1
    by (simp add: r)
  have f2: "batchFetch 2 (callsign aircraftACA123) = Inr (Some routeYYZLAX)"
    by (simp add: batchFetch_def)
  have o2: "enrichAircraftWithRoutes batchFetch batchDisplay ?acs ! 2
       = aircraftACA123\<lparr>acOriginIcao := Some ''CYYZ'', acDestinationIcao := Some ''KLAX''\<rparr>"
    using at[OF i2, THEN conjunct2, THEN conjunct2, THEN conjunct2, THEN conjunct2,
        THEN spec[of _ routeYYZLAX], THEN mp, THEN conjunct1, THEN mp] c f2 t2
    by (simp add: r)
  have o3: "enrichAircraftWithRoutes batchFetch batchDisplay ?acs ! 3 = aircraftNoCallsign"
    using at[OF i3, THEN conjunct1]
    by (simp add: enrichTask_def aircraftNoCallsign_def)
  from l t0 o0 f1 o1 t2 o2 o3 show ?thesis by simp
qed

end
